theory Spec2Isabelle
  imports Complex_Main "HOL-Library.Multiset"
begin

section \<open>Values of the data frame\<close>

text \<open>
  The program (\<^verbatim>\<open>app.py\<close>) reads a table of funds from a web page with pandas, cleans it in
  \<^verbatim>\<open>buscar_dados_fundamentus\<close>, filters and sorts it (\<^verbatim>\<open>df_filtrado\<close>) and aggregates it per
  segment (\<^verbatim>\<open>analise_segmento\<close>).

  A Python float is modelled by \<open>pyfloat\<close>: a finite value (an exact rational: the rounding
  of binary floating point to 53 bits is not modelled, and sums and quotients of finite
  values are exact), the two infinities, or NaN, which pandas uses as the null value of a
  numeric column. Comparisons follow IEEE 754: every comparison with NaN is false.
\<close>

datatype pyfloat = NaN | NInf | Fin rat | PInf

fun pf_le :: "pyfloat \<Rightarrow> pyfloat \<Rightarrow> bool" where
  "pf_le NaN y = False"
| "pf_le x NaN = False"
| "pf_le NInf y = True"
| "pf_le x PInf = True"
| "pf_le (Fin a) (Fin b) = (a \<le> b)"
| "pf_le PInf y = False"
| "pf_le (Fin a) NInf = False"

fun pf_lt :: "pyfloat \<Rightarrow> pyfloat \<Rightarrow> bool" where
  "pf_lt NaN y = False"
| "pf_lt x NaN = False"
| "pf_lt PInf y = False"
| "pf_lt x NInf = False"
| "pf_lt (Fin a) (Fin b) = (a < b)"
| "pf_lt NInf y = True"
| "pf_lt (Fin a) PInf = True"

fun pf_neg :: "pyfloat \<Rightarrow> pyfloat" where
  "pf_neg NaN = NaN"
| "pf_neg NInf = PInf"
| "pf_neg PInf = NInf"
| "pf_neg (Fin a) = Fin (- a)"

fun pf_add :: "pyfloat \<Rightarrow> pyfloat \<Rightarrow> pyfloat" where
  "pf_add NaN y = NaN"
| "pf_add x NaN = NaN"
| "pf_add PInf NInf = NaN"
| "pf_add NInf PInf = NaN"
| "pf_add PInf y = PInf"
| "pf_add x PInf = PInf"
| "pf_add NInf y = NInf"
| "pf_add x NInf = NInf"
| "pf_add (Fin a) (Fin b) = Fin (a + b)"

text \<open>Division of a float by a positive count, as the mean does.\<close>

fun pf_div_count :: "pyfloat \<Rightarrow> nat \<Rightarrow> pyfloat" where
  "pf_div_count (Fin a) n = Fin (a / of_nat n)"
| "pf_div_count x n = x"

text \<open>
  A cell of the table that \<^verbatim>\<open>pd.read_html\<close> returns holds text or a number; an empty cell
  is the number NaN.
\<close>

datatype cell = Text string | Number pyfloat

definition isna :: "cell \<Rightarrow> bool" where
  "isna c = (c = Number NaN)"

datatype py_error =
    RequestException
  | NoTablesFound
  | LengthMismatch nat
  | ValueError string
  | KeyError string

section \<open>Python's \<^verbatim>\<open>str.replace\<close> and \<^verbatim>\<open>float\<close>\<close>

text \<open>
  A Python string is a list of characters; a \<open>char\<close> stands for the code point of the same
  number, so the strings modelled are those over code points below 256.

  \<open>replace_char c new s\<close> is \<^verbatim>\<open>s.replace(c, new)\<close> for a pattern \<open>c\<close> of one character.
\<close>

fun replace_char :: "char \<Rightarrow> string \<Rightarrow> string \<Rightarrow> string" where
  "replace_char c new [] = []"
| "replace_char c new (x # xs) =
     (if x = c then new @ replace_char c new xs else x # replace_char c new xs)"

definition is_space :: "char \<Rightarrow> bool" where
  "is_space c = (of_char c \<in> set [9, 10, 11, 12, 13, 32, 133, 160 :: nat])"

definition is_digit :: "char \<Rightarrow> bool" where
  "is_digit c = (48 \<le> (of_char c :: nat) \<and> (of_char c :: nat) \<le> 57)"

definition to_lower :: "char \<Rightarrow> char" where
  "to_lower c =
     (if 65 \<le> (of_char c :: nat) \<and> (of_char c :: nat) \<le> 90 then char_of (of_char c + 32 :: nat) else c)"

definition py_strip :: "string \<Rightarrow> string" where
  "py_strip s = rev (dropWhile is_space (rev (dropWhile is_space s)))"

text \<open>An underscore is accepted only between two digits; \<open>prev\<close> is the character before.\<close>

fun underscores_ok :: "char option \<Rightarrow> string \<Rightarrow> bool" where
  "underscores_ok prev [] = (prev \<noteq> Some (CHR ''_''))"
| "underscores_ok prev (c # cs) =
     ((if c = CHR ''_'' then (case prev of None \<Rightarrow> False | Some p \<Rightarrow> is_digit p)
       else if prev = Some (CHR ''_'') then is_digit c else True)
      \<and> underscores_ok (Some c) cs)"

definition digits_val :: "string \<Rightarrow> nat" where
  "digits_val ds = foldl (\<lambda>a c. 10 * a + (of_char c - 48)) 0 ds"

definition pow10 :: "int \<Rightarrow> rat" where
  "pow10 e = (if 0 \<le> e then 10 ^ nat e else 1 / 10 ^ nat (- e))"

text \<open>
  The value of a decimal numeral as a double: at or above the midpoint between the largest
  double and \<open>2 ^ 1024\<close> it is infinity, at or below half the least positive double it is
  zero; in between it is kept as the exact rational.
\<close>

definition double_of_rat :: "rat \<Rightarrow> pyfloat" where
  "double_of_rat q =
     (if 2 ^ 1024 - 2 ^ 970 \<le> q then PInf
      else if q \<le> 1 / 2 ^ 1075 then Fin 0
      else Fin q)"

definition split_sign :: "string \<Rightarrow> bool \<times> string" where
  "split_sign s =
     (case s of
        [] \<Rightarrow> (False, [])
      | c # cs \<Rightarrow>
          if c = CHR ''-'' then (True, cs)
          else if c = CHR ''+'' then (False, cs)
          else (False, s))"

text \<open>The exponent part: nothing, or \<^verbatim>\<open>e\<close>, an optional sign and at least one digit.\<close>

definition parse_exponent :: "string \<Rightarrow> int option" where
  "parse_exponent s =
     (case s of
        [] \<Rightarrow> Some 0
      | c # cs \<Rightarrow>
          if c = CHR ''e'' \<or> c = CHR ''E'' then
            (case split_sign cs of
               (neg, ds) \<Rightarrow>
                 if ds \<noteq> [] \<and> list_all is_digit ds
                 then Some (if neg then - int (digits_val ds) else int (digits_val ds))
                 else None)
          else None)"

definition parse_unsigned :: "string \<Rightarrow> pyfloat option" where
  "parse_unsigned s =
     (if map to_lower s = ''inf'' \<or> map to_lower s = ''infinity'' then Some PInf
      else if map to_lower s = ''nan'' then Some NaN
      else
        (let ip = takeWhile is_digit s;
             r1 = dropWhile is_digit s;
             fp = (case r1 of [] \<Rightarrow> [] | c # cs \<Rightarrow> if c = CHR ''.'' then takeWhile is_digit cs else []);
             r2 = (case r1 of [] \<Rightarrow> [] | c # cs \<Rightarrow> if c = CHR ''.'' then dropWhile is_digit cs else r1)
         in if ip @ fp = [] then None
            else (case parse_exponent r2 of
                    None \<Rightarrow> None
                  | Some e \<Rightarrow>
                      Some (double_of_rat (of_nat (digits_val (ip @ fp)) * pow10 (e - int (length fp)))))))"

text \<open>
  \<open>py_float s\<close> is Python's \<^verbatim>\<open>float(s)\<close> on a string: surrounding white space (tab, line
  feed, vertical tab, form feed, carriage return, space, and beyond ASCII the next-line
  and no-break space characters) is dropped,
  underscores may separate digits, then an optional sign and \<^verbatim>\<open>inf\<close>, \<^verbatim>\<open>infinity\<close>,
  \<^verbatim>\<open>nan\<close> (in any case) or a decimal number with an optional exponent. Anything else raises
  \<^verbatim>\<open>ValueError\<close>.
\<close>

definition py_float :: "string \<Rightarrow> py_error + pyfloat" where
  "py_float s =
     (let t = py_strip s in
      if \<not> underscores_ok None t then Inl (ValueError s)
      else (case split_sign (filter (\<lambda>c. c \<noteq> CHR ''_'') t) of
              (neg, body) \<Rightarrow>
                (case parse_unsigned body of
                   None \<Rightarrow> Inl (ValueError s)
                 | Some v \<Rightarrow> Inr (if neg then pf_neg v else v))))"

section \<open>Cleaning of the percentage columns\<close>

text \<open>
  \<^verbatim>\<open>clean_percent\<close> (lines 38 to 42): a string loses every \<^verbatim>\<open>.\<close>, has every \<^verbatim>\<open>,\<close>
  turned into \<^verbatim>\<open>.\<close> and loses every \<^verbatim>\<open>%\<close>; what is left is given to \<^verbatim>\<open>float\<close>, and
  an empty rest is NaN. A value that is not a string is returned as it is.
\<close>

definition clean_percent :: "cell \<Rightarrow> py_error + pyfloat" where
  "clean_percent v =
     (case v of
        Text s \<Rightarrow>
          (let cleaned_value =
                 replace_char (CHR ''%'') [] (replace_char (CHR '','') ''.'' (replace_char (CHR ''.'') [] s))
           in if cleaned_value \<noteq> [] then py_float cleaned_value else Inr NaN)
      | Number x \<Rightarrow> Inr x)"

section \<open>Fetching and cleaning: \<^verbatim>\<open>buscar_dados_fundamentus\<close>\<close>

text \<open>
  What the HTTP request and \<^verbatim>\<open>pd.read_html\<close> give the function: the request raises
  (\<open>TransportFailure\<close>), or the page is read into its tables, in order. \<^verbatim>\<open>read_html\<close>
  raises \<^verbatim>\<open>ValueError\<close> when the page has no table, which is the empty list here.
  A table has a number of columns and rows of that many cells.
\<close>

record table =
  ncols :: nat
  rows :: "cell list list"

datatype response = TransportFailure | Page "table list"

text \<open>A row after the thirteen column names are assigned by position (lines 29 to 33).\<close>

record raw_row =
  TICKER :: cell
  SEGMENTO :: cell
  COTACAO :: cell
  FFO_YIELD :: cell
  DIVIDEND_YIELD :: cell
  P_VP :: cell
  VALOR_MERCADO :: cell
  LIQUIDEZ :: cell
  QTD_IMOVEIS :: cell
  PRECO_M2 :: cell
  ALUGUEL_M2 :: cell
  CAP_RATE :: cell
  VACANCIA_MEDIA :: cell

text \<open>
  A row of the cleaned frame: the four percentage columns, \<^verbatim>\<open>P_VP\<close> and \<^verbatim>\<open>LIQUIDEZ\<close> are
  float columns, the other columns are left as they were read.
\<close>

record fund =
  ticker :: cell
  segmento :: cell
  cotacao :: cell
  ffo_yield :: pyfloat
  dividend_yield :: pyfloat
  p_vp :: pyfloat
  valor_mercado :: cell
  liquidez :: pyfloat
  qtd_imoveis :: cell
  preco_m2 :: cell
  aluguel_m2 :: cell
  cap_rate :: pyfloat
  vacancia_media :: pyfloat

definition name_row :: "cell list \<Rightarrow> raw_row" where
  "name_row r =
     \<lparr>TICKER = r ! 0, SEGMENTO = r ! 1, COTACAO = r ! 2, FFO_YIELD = r ! 3,
      DIVIDEND_YIELD = r ! 4, P_VP = r ! 5, VALOR_MERCADO = r ! 6, LIQUIDEZ = r ! 7,
      QTD_IMOVEIS = r ! 8, PRECO_M2 = r ! 9, ALUGUEL_M2 = r ! 10, CAP_RATE = r ! 11,
      VACANCIA_MEDIA = r ! 12\<rparr>"

text \<open>
  \<^verbatim>\<open>df.columns = [...]\<close> with thirteen names raises \<^verbatim>\<open>ValueError\<close> (length mismatch) unless
  the frame has thirteen columns. A frame is rectangular, so every row then has thirteen
  cells; the test of the rows' lengths only keeps \<open>name_row\<close> inside each row.
\<close>

definition set_columns :: "table \<Rightarrow> py_error + raw_row list" where
  "set_columns t =
     (if ncols t = 13 \<and> list_all (\<lambda>r. length r = 13) (rows t)
      then Inr (map name_row (rows t))
      else Inl (LengthMismatch (ncols t)))"

text \<open>\<^verbatim>\<open>Series.apply(f)\<close>: \<open>f\<close> on every cell in order; the first exception ends it.\<close>

fun series_apply :: "('a \<Rightarrow> py_error + 'b) \<Rightarrow> 'a list \<Rightarrow> py_error + 'b list" where
  "series_apply f [] = Inr []"
| "series_apply f (x # xs) =
     (case f x of
        Inl e \<Rightarrow> Inl e
      | Inr y \<Rightarrow> (case series_apply f xs of Inl e \<Rightarrow> Inl e | Inr ys \<Rightarrow> Inr (y # ys)))"

text \<open>
  \<^verbatim>\<open>pd.to_numeric(..., errors='coerce')\<close> on one cell: a number stays, a text becomes the
  number pandas reads in it, or NaN when it reads none. The reading of a text belongs to
  pandas and is the parameter \<open>to_num\<close>; with \<^verbatim>\<open>errors='coerce'\<close> no cell raises.
\<close>

definition to_numeric_coerce :: "(string \<Rightarrow> pyfloat) \<Rightarrow> cell \<Rightarrow> pyfloat" where
  "to_numeric_coerce to_num c = (case c of Number x \<Rightarrow> x | Text s \<Rightarrow> to_num s)"

definition typed_row ::
  "(string \<Rightarrow> pyfloat) \<Rightarrow> raw_row \<Rightarrow> pyfloat \<Rightarrow> pyfloat \<Rightarrow> pyfloat \<Rightarrow> pyfloat \<Rightarrow> fund" where
  "typed_row to_num r dy vac ffo cap =
     \<lparr>ticker = TICKER r, segmento = SEGMENTO r, cotacao = COTACAO r, ffo_yield = ffo,
      dividend_yield = dy, p_vp = to_numeric_coerce to_num (P_VP r),
      valor_mercado = VALOR_MERCADO r, liquidez = to_numeric_coerce to_num (LIQUIDEZ r),
      qtd_imoveis = QTD_IMOVEIS r, preco_m2 = PRECO_M2 r, aluguel_m2 = ALUGUEL_M2 r,
      cap_rate = cap, vacancia_media = vac\<rparr>"

text \<open>
  Lines 36 to 48: \<^verbatim>\<open>clean_percent\<close> is applied to the columns \<^verbatim>\<open>DIVIDEND_YIELD\<close>,
  \<^verbatim>\<open>VACANCIA_MEDIA\<close>, \<^verbatim>\<open>FFO_YIELD\<close> and \<^verbatim>\<open>CAP_RATE\<close> in this order, a whole column at a
  time, then \<^verbatim>\<open>P_VP\<close> and \<^verbatim>\<open>LIQUIDEZ\<close> are coerced to numbers.
\<close>

definition convert_types :: "(string \<Rightarrow> pyfloat) \<Rightarrow> raw_row list \<Rightarrow> py_error + fund list" where
  "convert_types to_num rs =
     (case series_apply clean_percent (map DIVIDEND_YIELD rs) of
        Inl e \<Rightarrow> Inl e
      | Inr dys \<Rightarrow>
     (case series_apply clean_percent (map VACANCIA_MEDIA rs) of
        Inl e \<Rightarrow> Inl e
      | Inr vacs \<Rightarrow>
     (case series_apply clean_percent (map FFO_YIELD rs) of
        Inl e \<Rightarrow> Inl e
      | Inr ffos \<Rightarrow>
     (case series_apply clean_percent (map CAP_RATE rs) of
        Inl e \<Rightarrow> Inl e
      | Inr caps \<Rightarrow>
          Inr (map (\<lambda>(r, dy, vac, ffo, cap). typed_row to_num r dy vac ffo cap)
                 (zip rs (zip dys (zip vacs (zip ffos caps)))))))))"

text \<open>Line 51: \<^verbatim>\<open>dropna\<close> on the four critical columns. Line 52: positive liquidity.\<close>

definition critical_present :: "fund \<Rightarrow> bool" where
  "critical_present r =
     (dividend_yield r \<noteq> NaN \<and> p_vp r \<noteq> NaN \<and> vacancia_media r \<noteq> NaN \<and> liquidez r \<noteq> NaN)"

definition dropna_critical :: "fund list \<Rightarrow> fund list" where
  "dropna_critical df = filter critical_present df"

definition liquidez_positive :: "fund list \<Rightarrow> fund list" where
  "liquidez_positive df = filter (\<lambda>r. pf_lt (Fin 0) (liquidez r)) df"

text \<open>The body of the \<^verbatim>\<open>try\<close> (lines 18 to 54): every exception it can raise is an \<open>Inl\<close>.\<close>

definition try_body :: "(string \<Rightarrow> pyfloat) \<Rightarrow> response \<Rightarrow> py_error + fund list" where
  "try_body to_num resp =
     (case resp of
        TransportFailure \<Rightarrow> Inl RequestException
      | Page tabelas \<Rightarrow>
          (case tabelas of
             [] \<Rightarrow> Inl NoTablesFound
           | t # ts \<Rightarrow>
               (case set_columns t of
                  Inl e \<Rightarrow> Inl e
                | Inr rs \<Rightarrow>
                    (case convert_types to_num rs of
                       Inl e \<Rightarrow> Inl e
                     | Inr df \<Rightarrow> Inr (liquidez_positive (dropna_critical df))))))"

text \<open>
  \<^verbatim>\<open>buscar_dados_fundamentus\<close>: the frame returned, and the exception shown with
  \<^verbatim>\<open>st.error\<close> if there was one. The \<^verbatim>\<open>except\<close> branch (lines 56 to 58) returns the empty
  frame \<^verbatim>\<open>pd.DataFrame()\<close>. The cache of the decorator is not modelled.
\<close>

definition buscar_dados_fundamentus ::
  "(string \<Rightarrow> pyfloat) \<Rightarrow> response \<Rightarrow> fund list \<times> py_error option" where
  "buscar_dados_fundamentus to_num resp =
     (case try_body to_num resp of
        Inl e \<Rightarrow> ([], Some e)
      | Inr df \<Rightarrow> (df, None))"


section \<open>The page: filter, sort and aggregation\<close>

text \<open>The four slider values of lines 77 to 110.\<close>

record criteria =
  dy_min :: pyfloat
  pvp_max :: pyfloat
  vacancia_max :: pyfloat
  liquidez_min :: pyfloat

text \<open>The boolean mask of lines 114 to 117.\<close>

definition mask :: "criteria \<Rightarrow> fund \<Rightarrow> bool" where
  "mask c r =
     (pf_le (dy_min c) (dividend_yield r) \<and> pf_le (p_vp r) (pvp_max c) \<and>
      pf_le (vacancia_media r) (vacancia_max c) \<and> pf_le (liquidez_min c) (liquidez r))"

text \<open>
  \<^verbatim>\<open>sort_values(by=..., ascending=False)\<close> is called without \<^verbatim>\<open>kind\<close>, so pandas sorts with
  its default \<^verbatim>\<open>'quicksort'\<close>, which it documents as not stable: the rows come back in an
  order in which the key descends (rows with a NaN key last), and the order of rows with
  equal keys is whatever the sorting routine of the installed numpy leaves. The model
  therefore does not fix one result: \<open>sort_values_result before xs ys\<close> says that \<open>ys\<close> is
  a result the call may return on \<open>xs\<close>, the same rows in an order that agrees with
  \<open>before\<close>.
\<close>

definition sort_values_result :: "('a \<Rightarrow> 'a \<Rightarrow> bool) \<Rightarrow> 'a list \<Rightarrow> 'a list \<Rightarrow> bool" where
  "sort_values_result before xs ys = (mset ys = mset xs \<and> sorted_wrt before ys)"

definition desc_nan_last :: "('a \<Rightarrow> pyfloat) \<Rightarrow> 'a \<Rightarrow> 'a \<Rightarrow> bool" where
  "desc_nan_last key a b = (key b = NaN \<or> pf_le (key b) (key a))"

text \<open>\<^verbatim>\<open>df_filtrado\<close> (lines 113 to 118): \<open>res\<close> is a value the expression may have.\<close>

definition df_filtrado :: "fund list \<Rightarrow> criteria \<Rightarrow> fund list \<Rightarrow> bool" where
  "df_filtrado df_fii c res =
     sort_values_result (desc_nan_last dividend_yield) (filter (mask c) df_fii) res"

text \<open>
  Reductions of a column. \<^verbatim>\<open>count\<close> counts the cells that are not null; \<^verbatim>\<open>mean\<close>,
  \<^verbatim>\<open>min\<close> and \<^verbatim>\<open>max\<close> skip NaN and are NaN when nothing is left.
\<close>

definition series_count :: "cell list \<Rightarrow> nat" where
  "series_count cs = length (filter (\<lambda>c. \<not> isna c) cs)"

definition series_mean :: "pyfloat list \<Rightarrow> pyfloat" where
  "series_mean xs =
     (let vs = filter (\<lambda>x. x \<noteq> NaN) xs
      in if vs = [] then NaN else pf_div_count (foldl pf_add (Fin 0) vs) (length vs))"

definition pf_min :: "pyfloat \<Rightarrow> pyfloat \<Rightarrow> pyfloat" where
  "pf_min a b = (if pf_le a b then a else b)"

definition pf_max :: "pyfloat \<Rightarrow> pyfloat \<Rightarrow> pyfloat" where
  "pf_max a b = (if pf_le a b then b else a)"

definition series_min :: "pyfloat list \<Rightarrow> pyfloat" where
  "series_min xs = (case filter (\<lambda>x. x \<noteq> NaN) xs of [] \<Rightarrow> NaN | v # vs \<Rightarrow> foldl pf_min v vs)"

definition series_max :: "pyfloat list \<Rightarrow> pyfloat" where
  "series_max xs = (case filter (\<lambda>x. x \<noteq> NaN) xs of [] \<Rightarrow> NaN | v # vs \<Rightarrow> foldl pf_max v vs)"

text \<open>
  The values the four sliders start with (the \<^verbatim>\<open>value=\<close> arguments of lines 81, 90, 99 and
  108): the least yield, the greatest P/VP, the greatest vacancy and the least liquidity
  of the frame.
\<close>

definition default_criteria :: "fund list \<Rightarrow> criteria" where
  "default_criteria df_fii =
     \<lparr>dy_min = series_min (map dividend_yield df_fii),
      pvp_max = series_max (map p_vp df_fii),
      vacancia_max = series_max (map vacancia_media df_fii),
      liquidez_min = series_min (map liquidez df_fii)\<rparr>"

text \<open>
  \<^verbatim>\<open>groupby('SEGMENTO')\<close> with its defaults: rows whose key is null belong to no group,
  and the groups come in ascending order of the key (numbers before texts, texts by code
  point). The order is produced here by an insertion sort.
\<close>

fun str_le :: "string \<Rightarrow> string \<Rightarrow> bool" where
  "str_le [] t = True"
| "str_le (x # xs) [] = False"
| "str_le (x # xs) (y # ys) =
     ((of_char x :: nat) < of_char y \<or> (x = y \<and> str_le xs ys))"

fun cell_le :: "cell \<Rightarrow> cell \<Rightarrow> bool" where
  "cell_le (Number x) (Number y) = pf_le x y"
| "cell_le (Number x) (Text t) = True"
| "cell_le (Text s) (Number y) = False"
| "cell_le (Text s) (Text t) = str_le s t"

fun insert_sorted :: "('a \<Rightarrow> 'a \<Rightarrow> bool) \<Rightarrow> 'a \<Rightarrow> 'a list \<Rightarrow> 'a list" where
  "insert_sorted le x [] = [x]"
| "insert_sorted le x (y # ys) = (if le x y then x # y # ys else y # insert_sorted le x ys)"

fun insertion_sort :: "('a \<Rightarrow> 'a \<Rightarrow> bool) \<Rightarrow> 'a list \<Rightarrow> 'a list" where
  "insertion_sort le [] = []"
| "insertion_sort le (x # xs) = insert_sorted le x (insertion_sort le xs)"

definition group_keys :: "fund list \<Rightarrow> cell list" where
  "group_keys df = insertion_sort cell_le (remdups (filter (\<lambda>k. \<not> isna k) (map segmento df)))"

text \<open>One row of the aggregation (lines 248 to 254, with \<^verbatim>\<open>reset_index\<close>).\<close>

record summary =
  segment_key :: cell
  FIIs_Contagem :: nat
  DY_Medio :: pyfloat
  P_VP_Medio :: pyfloat
  Vacancia_Media :: pyfloat
  Liquidez_Medio :: pyfloat

definition agg_group :: "fund list \<Rightarrow> cell \<Rightarrow> summary" where
  "agg_group df k =
     (let g = filter (\<lambda>r. segmento r = k) df
      in \<lparr>segment_key = k,
          FIIs_Contagem = series_count (map ticker g),
          DY_Medio = series_mean (map dividend_yield g),
          P_VP_Medio = series_mean (map p_vp g),
          Vacancia_Media = series_mean (map vacancia_media g),
          Liquidez_Medio = series_mean (map liquidez g)\<rparr>)"

definition groupby_agg :: "fund list \<Rightarrow> summary list" where
  "groupby_agg df = map (agg_group df) (group_keys df)"

text \<open>\<^verbatim>\<open>analise_segmento\<close>: the groups, sorted by \<^verbatim>\<open>FIIs_Contagem\<close> descending.\<close>

definition analise_segmento :: "fund list \<Rightarrow> summary list \<Rightarrow> bool" where
  "analise_segmento df res =
     sort_values_result (\<lambda>a b. FIIs_Contagem b \<le> FIIs_Contagem a) (groupby_agg df) res"








section \<open>Properties the specification asks for\<close>


text \<open>
  The order the specification wants among segments of equal count: the one whose segment
  appears first in the input comes first.
\<close>

definition first_appearance :: "fund list \<Rightarrow> cell \<Rightarrow> nat" where
  "first_appearance df k = length (takeWhile (\<lambda>r. segmento r \<noteq> k) df)"

definition ties_by_first_appearance :: "fund list \<Rightarrow> summary list \<Rightarrow> bool" where
  "ties_by_first_appearance df res =
     sorted_wrt (\<lambda>a b. FIIs_Contagem a = FIIs_Contagem b \<longrightarrow>
                        first_appearance df (segment_key a) < first_appearance df (segment_key b)) res"


section \<open>Example data\<close>

text \<open>
  Three rows as \<^verbatim>\<open>read_html\<close> delivers them (percentages as text with a decimal comma,
  the other numbers already parsed), and the rows of the cleaned frame they become. They
  are the funds A, B and C of the end-to-end scenario of the specification.
\<close>

definition mk_row :: "string \<Rightarrow> cell \<Rightarrow> cell \<Rightarrow> cell \<Rightarrow> cell \<Rightarrow> cell \<Rightarrow> cell list" where
  "mk_row tk seg dy pvp vac liq =
     [Text tk, seg, Number (Fin 100), Text ''7,0%'', dy, pvp, Number (Fin 1000000), liq,
      Number (Fin 2), Number (Fin 3000), Number (Fin 30), Text ''6,0%'', vac]"

definition mk_fund :: "string \<Rightarrow> cell \<Rightarrow> pyfloat \<Rightarrow> pyfloat \<Rightarrow> pyfloat \<Rightarrow> pyfloat \<Rightarrow> fund" where
  "mk_fund tk seg dy pvp vac liq =
     \<lparr>ticker = Text tk, segmento = seg, cotacao = Number (Fin 100), ffo_yield = Fin 7,
      dividend_yield = dy, p_vp = pvp, valor_mercado = Number (Fin 1000000), liquidez = liq,
      qtd_imoveis = Number (Fin 2), preco_m2 = Number (Fin 3000), aluguel_m2 = Number (Fin 30),
      cap_rate = Fin 6, vacancia_media = vac\<rparr>"

definition row_A :: "cell list" where
  "row_A = mk_row ''A'' (Text ''Shopping'') (Text ''8,0%'') (Number (Fin (9 / 10)))
             (Text ''5,0%'') (Number (Fin 50000))"

definition row_B :: "cell list" where
  "row_B = mk_row ''B'' (Text ''Shopping'') (Text ''10,0%'') (Number (Fin (12 / 10)))
             (Text ''2,0%'') (Number (Fin 200000))"

definition row_C :: "cell list" where
  "row_C = mk_row ''C'' (Text ''Logistics'') (Text ''6,0%'') (Number (Fin (8 / 10)))
             (Text ''1,0%'') (Number (Fin 80000))"

definition fund_A :: fund where
  "fund_A = mk_fund ''A'' (Text ''Shopping'') (Fin 8) (Fin (9 / 10)) (Fin 5) (Fin 50000)"

definition fund_B :: fund where
  "fund_B = mk_fund ''B'' (Text ''Shopping'') (Fin 10) (Fin (12 / 10)) (Fin 2) (Fin 200000)"

definition fund_C :: fund where
  "fund_C = mk_fund ''C'' (Text ''Logistics'') (Fin 6) (Fin (8 / 10)) (Fin 1) (Fin 80000)"

text \<open>
  A second row with the ticker of A; a fund with the yield of A and another ticker; a fund
  whose segment cell is empty.
\<close>

definition row_A2 :: "cell list" where
  "row_A2 = mk_row ''A'' (Text ''Shopping'') (Text ''10,0%'') (Number (Fin (12 / 10)))
              (Text ''2,0%'') (Number (Fin 200000))"

definition fund_A2 :: fund where
  "fund_A2 = mk_fund ''A'' (Text ''Shopping'') (Fin 10) (Fin (12 / 10)) (Fin 2) (Fin 200000)"

definition fund_D :: fund where
  "fund_D = mk_fund ''D'' (Text ''Shopping'') (Fin 8) (Fin (9 / 10)) (Fin 5) (Fin 50000)"

definition row_N :: "cell list" where
  "row_N = mk_row ''N'' (Number NaN) (Text ''8,0%'') (Number (Fin (9 / 10)))
             (Text ''5,0%'') (Number (Fin 50000))"

definition fund_N :: fund where
  "fund_N = mk_fund ''N'' (Number NaN) (Fin 8) (Fin (9 / 10)) (Fin 5) (Fin 50000)"

text \<open>
  The row of fund A as a table delivers it whose first two columns come in the other
  order, the segment before the ticker, and the record it becomes.
\<close>

definition row_A_swapped :: "cell list" where
  "row_A_swapped = mk_row ''Shopping'' (Text ''A'') (Text ''8,0%'') (Number (Fin (9 / 10)))
                     (Text ''5,0%'') (Number (Fin 50000))"

definition fund_A_swapped :: fund where
  "fund_A_swapped = mk_fund ''Shopping'' (Text ''A'') (Fin 8) (Fin (9 / 10)) (Fin 5) (Fin 50000)"

text \<open>Rows with a cell that is not a number: a dash as yield, a text as P/VP.\<close>

definition row_dash :: "cell list" where
  "row_dash = mk_row ''E'' (Text ''Shopping'') (Text ''-'') (Number (Fin (9 / 10)))
                (Text ''5,0%'') (Number (Fin 50000))"

definition row_pvp_text :: "cell list" where
  "row_pvp_text = mk_row ''F'' (Text ''Shopping'') (Text ''8,0%'') (Text ''abc'')
                    (Text ''5,0%'') (Number (Fin 50000))"

definition page_of :: "cell list list \<Rightarrow> response" where
  "page_of rs = Page [\<lparr>ncols = 13, rows = rs\<rparr>]"


text \<open>The criteria of the end-to-end scenario.\<close>

definition criteria_e2e :: criteria where
  "criteria_e2e = \<lparr>dy_min = Fin 7, pvp_max = Fin (15 / 10), vacancia_max = Fin 10, liquidez_min = Fin 10000\<rparr>"

text \<open>Criteria whose four bounds are the values of fund A.\<close>

definition criteria_at_A :: criteria where
  "criteria_at_A = \<lparr>dy_min = Fin 8, pvp_max = Fin (9 / 10), vacancia_max = Fin 5, liquidez_min = Fin 50000\<rparr>"

text \<open>
  Rows of the aggregation: fund A alone, fund C alone, and the funds A and B together (the
  summary expected by the end-to-end scenario).
\<close>

definition summary_A :: summary where
  "summary_A = \<lparr>segment_key = Text ''Shopping'', FIIs_Contagem = 1, DY_Medio = Fin 8,
      P_VP_Medio = Fin (9 / 10), Vacancia_Media = Fin 5, Liquidez_Medio = Fin 50000\<rparr>"

definition summary_C :: summary where
  "summary_C = \<lparr>segment_key = Text ''Logistics'', FIIs_Contagem = 1, DY_Medio = Fin 6,
      P_VP_Medio = Fin (8 / 10), Vacancia_Media = Fin 1, Liquidez_Medio = Fin 80000\<rparr>"

definition summary_AB :: summary where
  "summary_AB = \<lparr>segment_key = Text ''Shopping'', FIIs_Contagem = 2, DY_Medio = Fin 9,
      P_VP_Medio = Fin (105 / 100), Vacancia_Media = Fin (35 / 10), Liquidez_Medio = Fin 125000\<rparr>"


section \<open>Facts about the percent parser\<close>

lemma replace_char_delete: "replace_char c [] s = filter (\<lambda>x. x \<noteq> c) s"
  by (induction s) auto

lemma replace_char_subst: "replace_char c [d] s = map (\<lambda>x. if x = c then d else x) s"
  by (induction s) auto

lemmas float_eval_defs =
  py_float_def py_strip_def is_space_def is_digit_def split_sign_def parse_unsigned_def
  to_lower_def parse_exponent_def digits_val_def pow10_def double_of_rat_def

lemma py_float_1234_56: "py_float ''1234.56'' = Inr (Fin (123456 / 100))"
  by (simp add: float_eval_defs)

lemma py_float_12_3: "py_float ''12.3'' = Inr (Fin (123 / 10))"
  by (simp add: float_eval_defs)

lemma py_float_0: "py_float ''0'' = Inr (Fin 0)"
  by (simp add: float_eval_defs)

lemma clean_percent_Text:
  "clean_percent (Text t) =
     (let r = filter (\<lambda>x. x \<noteq> CHR ''%'')
                (map (\<lambda>x. if x = CHR '','' then CHR ''.'' else x)
                  (filter (\<lambda>x. x \<noteq> CHR ''.'') t))
      in if r = [] then Inr NaN else py_float r)"
  by (simp add: clean_percent_def replace_char_delete replace_char_subst Let_def)

text \<open>
  Claim C1. On a textual cell the percent parser removes the thousands separators (every
  full stop), turns the decimal comma into a full stop, removes the percent sign (every
  one, so a trailing one too), and parses what is left as a float, an empty rest being
  null (NaN); a numeric cell passes through unchanged. In particular
  \<^verbatim>\<open>"1.234,56%"\<close> gives 1234.56, \<^verbatim>\<open>"12,3%"\<close> gives 12.3, the empty text gives null and
  \<^verbatim>\<open>"0%"\<close> gives 0.0.
\<close>

theorem clean_percent_spec:
  "clean_percent (Text s) =
     (let r = filter (\<lambda>x. x \<noteq> CHR ''%'')
                (map (\<lambda>x. if x = CHR '','' then CHR ''.'' else x)
                  (filter (\<lambda>x. x \<noteq> CHR ''.'') s))
      in if r = [] then Inr NaN else py_float r)
   \<and> clean_percent (Text (s @ ''%'')) = clean_percent (Text s)
   \<and> clean_percent (Number x) = Inr x
   \<and> clean_percent (Text ''1.234,56%'') = Inr (Fin (123456 / 100))
   \<and> clean_percent (Text ''12,3%'') = Inr (Fin (123 / 10))
   \<and> clean_percent (Text '''') = Inr NaN
   \<and> clean_percent (Text ''0%'') = Inr (Fin 0)"
proof -
  have trail: "clean_percent (Text (s @ ''%'')) = clean_percent (Text s)"
    by (simp add: clean_percent_Text)
  have num: "clean_percent (Number x) = Inr x"
    by (simp add: clean_percent_def)
  have e1: "clean_percent (Text ''1.234,56%'') = Inr (Fin (123456 / 100))"
    by (simp add: clean_percent_Text py_float_1234_56)
  have e2: "clean_percent (Text ''12,3%'') = Inr (Fin (123 / 10))"
    by (simp add: clean_percent_Text py_float_12_3)
  have e3: "clean_percent (Text '''') = Inr NaN"
    by (simp add: clean_percent_Text)
  have e4: "clean_percent (Text ''0%'') = Inr (Fin 0)"
    by (simp add: clean_percent_Text py_float_0)
  show ?thesis
    using clean_percent_Text [of s] trail num e1 e2 e3 e4 by blast
qed

section \<open>Facts about floats\<close>

lemma pf_le_refl: "x \<noteq> NaN \<Longrightarrow> pf_le x x"
  by (cases x) simp_all

lemma pf_le_total: "x \<noteq> NaN \<Longrightarrow> y \<noteq> NaN \<Longrightarrow> pf_le x y \<or> pf_le y x"
  by (cases x; cases y) auto

lemma pf_le_trans: "pf_le x y \<Longrightarrow> pf_le y z \<Longrightarrow> pf_le x z"
  by (cases x; cases y; cases z) simp_all


lemma pf_le_not_NaN: "pf_le x y \<Longrightarrow> x \<noteq> NaN \<and> y \<noteq> NaN"
  by (cases x; cases y) simp_all

section \<open>Evaluation of the example data\<close>

lemma clean_percent_examples:
  "clean_percent (Text ''7,0%'') = Inr (Fin 7)"
  "clean_percent (Text ''6,0%'') = Inr (Fin 6)"
  "clean_percent (Text ''8,0%'') = Inr (Fin 8)"
  "clean_percent (Text ''10,0%'') = Inr (Fin 10)"
  "clean_percent (Text ''5,0%'') = Inr (Fin 5)"
  "clean_percent (Text ''2,0%'') = Inr (Fin 2)"
  "clean_percent (Text ''1,0%'') = Inr (Fin 1)"
  "clean_percent (Text ''-'') = Inl (ValueError ''-'')"
  by (simp_all add: clean_percent_Text float_eval_defs)

lemma name_row_mk_row:
  "name_row (mk_row tk seg dy pvp vac liq) =
     \<lparr>TICKER = Text tk, SEGMENTO = seg, COTACAO = Number (Fin 100), FFO_YIELD = Text ''7,0%'',
      DIVIDEND_YIELD = dy, P_VP = pvp, VALOR_MERCADO = Number (Fin 1000000), LIQUIDEZ = liq,
      QTD_IMOVEIS = Number (Fin 2), PRECO_M2 = Number (Fin 3000), ALUGUEL_M2 = Number (Fin 30),
      CAP_RATE = Text ''6,0%'', VACANCIA_MEDIA = vac\<rparr>"
  by (simp add: name_row_def mk_row_def)

lemma length_mk_row: "length (mk_row tk seg dy pvp vac liq) = 13"
  by (simp add: mk_row_def)

lemmas example_rows =
  row_A_def row_A2_def row_A_swapped_def row_B_def row_C_def row_N_def row_dash_def
  row_pvp_text_def

lemmas example_funds =
  fund_A_def fund_A2_def fund_A_swapped_def fund_B_def fund_C_def fund_D_def fund_N_def

lemmas try_body_eval =
  try_body_def page_of_def set_columns_def example_rows length_mk_row
  name_row_mk_row convert_types_def clean_percent_examples typed_row_def
  to_numeric_coerce_def dropna_critical_def critical_present_def liquidez_positive_def
  example_funds mk_fund_def

lemma try_body_ABC:
  "try_body to_num (page_of [row_A, row_B, row_C]) = Inr [fund_A, fund_B, fund_C]"
  by (simp add: try_body_eval)

lemma try_body_AC:
  "try_body to_num (page_of [row_A, row_C]) = Inr [fund_A, fund_C]"
  by (simp add: try_body_eval)

lemma try_body_dash:
  "try_body to_num (page_of [row_A, row_dash, row_C]) = Inl (ValueError ''-'')"
  by (simp add: try_body_eval)

lemma try_body_pvp_text:
  "try_body (\<lambda>s. NaN) (page_of [row_A, row_pvp_text, row_C]) = Inr [fund_A, fund_C]"
  by (simp add: try_body_eval)

lemma try_body_same_ticker:
  "try_body to_num (page_of [row_A, row_A2]) = Inr [fund_A, fund_A2]"
  by (simp add: try_body_eval)


section \<open>Facts about the cleaning\<close>

lemma series_apply_length: "series_apply f xs = Inr ys \<Longrightarrow> length ys = length xs"
  by (induction xs arbitrary: ys) (auto split: sum.splits)

lemma ticker_typed_row: "ticker (typed_row to_num r dy vac ffo cap) = TICKER r"
  by (simp add: typed_row_def)

lemma convert_types_tickers:
  assumes "convert_types to_num rs = Inr df"
  shows "map ticker df = map TICKER rs"
proof -
  from assms obtain dys vacs ffos caps where
    a: "series_apply clean_percent (map DIVIDEND_YIELD rs) = Inr dys"
    and b: "series_apply clean_percent (map VACANCIA_MEDIA rs) = Inr vacs"
    and c: "series_apply clean_percent (map FFO_YIELD rs) = Inr ffos"
    and d: "series_apply clean_percent (map CAP_RATE rs) = Inr caps"
    and df: "df = map (\<lambda>(r, dy, vac, ffo, cap). typed_row to_num r dy vac ffo cap)
                    (zip rs (zip dys (zip vacs (zip ffos caps))))"
    by (auto simp: convert_types_def split: sum.splits)
  have len: "length (zip dys (zip vacs (zip ffos caps))) = length rs"
    using series_apply_length [OF a] series_apply_length [OF b]
      series_apply_length [OF c] series_apply_length [OF d] by simp
  have "map ticker df = map (\<lambda>p. TICKER (fst p)) (zip rs (zip dys (zip vacs (zip ffos caps))))"
    unfolding df by (simp add: case_prod_beta ticker_typed_row)
  also have "\<dots> = map TICKER (map fst (zip rs (zip dys (zip vacs (zip ffos caps)))))"
    by simp
  also have "\<dots> = map TICKER rs"
    using len by (simp only: map_fst_zip)
  finally show ?thesis .
qed

lemma convert_types_fails_alike:
  "isl (convert_types to_num rs) = isl (convert_types to_num' rs)"
  by (simp add: convert_types_def split: sum.splits)

lemma try_body_fails_alike:
  "isl (try_body to_num resp) = isl (try_body to_num' resp)"
proof (cases resp)
  case TransportFailure
  then show ?thesis by (simp add: try_body_def)
next
  case (Page tabelas)
  show ?thesis
  proof (cases tabelas)
    case Nil
    with Page show ?thesis by (simp add: try_body_def)
  next
    case (Cons t ts)
    show ?thesis
    proof (cases "set_columns t")
      case (Inl e)
      with Page Cons show ?thesis by (simp add: try_body_def)
    next
      case (Inr rs)
      with Page Cons convert_types_fails_alike [of to_num rs to_num'] show ?thesis
        by (cases "convert_types to_num rs"; cases "convert_types to_num' rs")
          (simp_all add: try_body_def)
    qed
  qed
qed

lemma buscar_rows:
  "set (fst (buscar_dados_fundamentus to_num resp)) \<subseteq>
     {r. critical_present r \<and> pf_lt (Fin 0) (liquidez r)}"
  by (auto simp: buscar_dados_fundamentus_def try_body_def dropna_critical_def
      liquidez_positive_def split: sum.splits response.splits list.splits)

lemma buscar_ok_iff: "(snd (buscar_dados_fundamentus to_num resp) = None) = (\<not> isl (try_body to_num resp))"
  by (simp add: buscar_dados_fundamentus_def split: sum.splits)

text \<open>
  Claim C2. Every row of the frame that the cleaning returns has a yield, a P/VP, a vacancy
  and a liquidity that are not null, and a liquidity above zero. A text in \<^verbatim>\<open>P_VP\<close> or
  \<^verbatim>\<open>LIQUIDEZ\<close> that is not a number is made null and never makes the cleaning fail: whether
  the cleaning fails is the same when pandas reads a number in no text at all.
\<close>

theorem normalizer_rows_valid:
  "(\<forall>r \<in> set (fst (buscar_dados_fundamentus to_num resp)).
      dividend_yield r \<noteq> NaN \<and> p_vp r \<noteq> NaN \<and> vacancia_media r \<noteq> NaN \<and>
      liquidez r \<noteq> NaN \<and> pf_lt (Fin 0) (liquidez r))
   \<and> (snd (buscar_dados_fundamentus to_num resp) = None) =
     (snd (buscar_dados_fundamentus (\<lambda>s. NaN) resp) = None)"
proof
  show "\<forall>r \<in> set (fst (buscar_dados_fundamentus to_num resp)).
      dividend_yield r \<noteq> NaN \<and> p_vp r \<noteq> NaN \<and> vacancia_media r \<noteq> NaN \<and>
      liquidez r \<noteq> NaN \<and> pf_lt (Fin 0) (liquidez r)"
    using buscar_rows [of to_num resp] by (auto simp: critical_present_def)
  show "(snd (buscar_dados_fundamentus to_num resp) = None) =
     (snd (buscar_dados_fundamentus (\<lambda>s. NaN) resp) = None)"
    using try_body_fails_alike [of to_num resp "\<lambda>s. NaN"] by (simp add: buscar_ok_iff)
qed

theorem normalizer_rows_valid_witness:
  "fst (buscar_dados_fundamentus (\<lambda>s. NaN) (page_of [row_A, row_pvp_text, row_C])) = [fund_A, fund_C]
   \<and> snd (buscar_dados_fundamentus (\<lambda>s. NaN) (page_of [row_A, row_pvp_text, row_C])) = None
   \<and> dividend_yield fund_A \<noteq> NaN \<and> p_vp fund_A \<noteq> NaN \<and> vacancia_media fund_A \<noteq> NaN
   \<and> liquidez fund_A \<noteq> NaN \<and> pf_lt (Fin 0) (liquidez fund_A)"
proof -
  have ev: "buscar_dados_fundamentus (\<lambda>s. NaN) (page_of [row_A, row_pvp_text, row_C]) =
              ([fund_A, fund_C], None)"
    by (simp add: buscar_dados_fundamentus_def try_body_pvp_text)
  show ?thesis
    using normalizer_rows_valid [of "\<lambda>s. NaN" "page_of [row_A, row_pvp_text, row_C]"]
    by (simp add: ev)
qed

text \<open>
  Claim C7 says that a cell that cannot be parsed only removes its own row. The code does
  so for \<^verbatim>\<open>P_VP\<close> and \<^verbatim>\<open>LIQUIDEZ\<close> and for an empty percentage, but not for a percentage
  that is some other text: \<^verbatim>\<open>float\<close> raises, the \<^verbatim>\<open>except\<close> branch catches it, and the
  whole frame comes back empty. Here the second of three rows has a dash as its yield;
  without that row the two other rows are returned.
\<close>

theorem unparseable_percent_empties_frame:
  "buscar_dados_fundamentus to_num (page_of [row_A, row_dash, row_C]) = ([], Some (ValueError ''-''))
   \<and> buscar_dados_fundamentus to_num (page_of [row_A, row_C]) = ([fund_A, fund_C], None)"
  by (simp add: buscar_dados_fundamentus_def try_body_dash try_body_AC)

text \<open>
  Claim C9 says that no two records of the cleaned frame share a ticker. The code never
  removes a duplicate: two rows of the table with the same ticker are both kept.
\<close>

theorem ticker_not_unique_counterexample:
  "fst (buscar_dados_fundamentus (\<lambda>s. NaN) (page_of [row_A, row_A2])) = [fund_A, fund_A2]
   \<and> fund_A \<noteq> fund_A2 \<and> ticker fund_A = ticker fund_A2"
  by (simp add: buscar_dados_fundamentus_def try_body_same_ticker example_funds mk_fund_def)

text \<open>
  Claim C9, amended. The cleaning keeps tickers unique: when no two rows of the table read
  have the same ticker cell (column 0), no two records of the cleaned frame have the same
  ticker.
\<close>

theorem ticker_uniqueness_preserved:
  assumes "distinct (map (\<lambda>r. r ! 0) (rows t))"
  shows "distinct (map ticker (fst (buscar_dados_fundamentus to_num (Page (t # ts)))))"
proof (cases "try_body to_num (Page (t # ts))")
  case (Inl e)
  then show ?thesis by (simp add: buscar_dados_fundamentus_def)
next
  case (Inr res)
  then obtain rs df where rs: "set_columns t = Inr rs"
    and df: "convert_types to_num rs = Inr df"
    and res: "res = liquidez_positive (dropna_critical df)"
    by (auto simp: try_body_def split: sum.splits)
  from rs have "rs = map name_row (rows t)"
    by (auto simp: set_columns_def split: if_splits)
  then have "map TICKER rs = map (\<lambda>r. r ! 0) (rows t)"
    by (simp add: name_row_def)
  with convert_types_tickers [OF df] assms have "distinct (map ticker df)"
    by simp
  then have "distinct (map ticker res)"
    unfolding res liquidez_positive_def dropna_critical_def
    by (simp add: distinct_map_filter)
  with Inr show ?thesis by (simp add: buscar_dados_fundamentus_def)
qed

theorem ticker_uniqueness_preserved_witness:
  "distinct (map (\<lambda>r. r ! 0) [row_A, row_B, row_C])
   \<and> distinct (map ticker (fst (buscar_dados_fundamentus (\<lambda>s. NaN) (page_of [row_A, row_B, row_C]))))"
proof -
  have d: "distinct (map (\<lambda>r. r ! 0) (rows \<lparr>ncols = 13, rows = [row_A, row_B, row_C]\<rparr>))"
    by (simp add: example_rows mk_row_def)
  from ticker_uniqueness_preserved [OF d, of "\<lambda>s. NaN" "[]"] d
  show ?thesis by (simp add: page_of_def)
qed


section \<open>Failure of the refresh\<close>













section \<open>Facts about sorting\<close>

lemma mset_insert_sorted: "mset (insert_sorted le x ys) = add_mset x (mset ys)"
  by (induction ys) simp_all

lemma mset_insertion_sort: "mset (insertion_sort le xs) = mset xs"
  by (induction xs) (simp_all add: mset_insert_sorted)

lemma set_insert_sorted: "set (insert_sorted le x ys) = insert x (set ys)"
  using mset_insert_sorted [of le x ys] by (metis set_mset_add_mset_insert set_mset_mset)



lemma sorted_wrt_insert_sorted:
  assumes tot: "\<And>a b. le a b \<or> le b a"
    and tr: "\<And>a b c. le a b \<Longrightarrow> le b c \<Longrightarrow> le a c"
  shows "sorted_wrt le ys \<Longrightarrow> sorted_wrt le (insert_sorted le x ys)"
proof (induction ys)
  case Nil
  then show ?case by simp
next
  case (Cons y ys)
  show ?case
  proof (cases "le x y")
    case True
    with Cons.prems tr show ?thesis by auto
  next
    case False
    with tot have "le y x" by blast
    with False Cons show ?thesis by (auto simp: set_insert_sorted)
  qed
qed

lemma sorted_wrt_insertion_sort:
  assumes "\<And>a b. le a b \<or> le b a"
    and "\<And>a b c. le a b \<Longrightarrow> le b c \<Longrightarrow> le a c"
  shows "sorted_wrt le (insertion_sort le xs)"
  by (induction xs) (simp_all add: sorted_wrt_insert_sorted [OF assms])

lemma sort_values_result_exists:
  assumes "\<And>a b. before a b \<or> before b a"
    and "\<And>a b c. before a b \<Longrightarrow> before b c \<Longrightarrow> before a c"
  shows "sort_values_result before xs (insertion_sort before xs)"
  by (simp add: sort_values_result_def mset_insertion_sort sorted_wrt_insertion_sort [OF assms])

lemma desc_nan_last_total: "desc_nan_last key a b \<or> desc_nan_last key b a"
  using pf_le_total [of "key a" "key b"] by (auto simp: desc_nan_last_def)

lemma desc_nan_last_trans:
  "desc_nan_last key a b \<Longrightarrow> desc_nan_last key b c \<Longrightarrow> desc_nan_last key a c"
  using pf_le_trans [of "key c" "key b" "key a"] pf_le_not_NaN [of "key c" "key b"]
  by (auto simp: desc_nan_last_def)


section \<open>Facts about the filter\<close>

lemma mask_not_NaN: "mask c r \<Longrightarrow> dividend_yield r \<noteq> NaN"
  using pf_le_not_NaN [of "dy_min c" "dividend_yield r"] by (simp add: mask_def)

lemma df_filtrado_exists:
  "df_filtrado df c (insertion_sort (desc_nan_last dividend_yield) (filter (mask c) df))"
  unfolding df_filtrado_def
  by (rule sort_values_result_exists) (rule desc_nan_last_total, erule (1) desc_nan_last_trans)

lemma df_filtrado_set: "df_filtrado df c res \<Longrightarrow> set res = {r \<in> set df. mask c r}"
  unfolding df_filtrado_def sort_values_result_def
  by (metis set_filter set_mset_mset)

lemma df_filtrado_sorted:
  assumes "df_filtrado df c res"
  shows "sorted_wrt (\<lambda>a b. pf_le (dividend_yield b) (dividend_yield a)) res"
proof -
  have srt: "sorted_wrt (desc_nan_last dividend_yield) res"
    using assms by (simp add: df_filtrado_def sort_values_result_def)
  have nn: "\<And>r. r \<in> set res \<Longrightarrow> dividend_yield r \<noteq> NaN"
    using df_filtrado_set [OF assms] mask_not_NaN by auto
  show ?thesis
  proof (rule sorted_wrt_mono_rel [OF _ srt])
    fix a b
    assume "a \<in> set res" and "b \<in> set res" and "desc_nan_last dividend_yield a b"
    with nn [of b] show "pf_le (dividend_yield b) (dividend_yield a)"
      by (simp add: desc_nan_last_def)
  qed
qed


lemmas filter_eval =
  df_filtrado_def sort_values_result_def desc_nan_last_def mask_def criteria_e2e_def
  criteria_at_A_def example_funds mk_fund_def

lemma df_filtrado_e2e: "df_filtrado [fund_A, fund_B, fund_C] criteria_e2e [fund_B, fund_A]"
  by (simp add: filter_eval)

lemma df_filtrado_at_A: "df_filtrado [fund_A, fund_B, fund_C] criteria_at_A [fund_A]"
  by (simp add: filter_eval)

text \<open>
  Claim C3. The filter always has a result, and a record is in the result exactly when it
  is a record of the dataset with a yield at least the minimum, a P/VP at most the maximum,
  a vacancy at most the maximum and a liquidity at least the minimum; the four bounds are
  inclusive (\<open>pf_le\<close> is \<open>\<le>\<close> on floats). When no record passes, the result is the empty
  frame, not an error.
\<close>

theorem filter_membership:
  "(\<exists>res. df_filtrado df c res)
   \<and> (\<forall>res r. df_filtrado df c res \<longrightarrow>
         (r \<in> set res \<longleftrightarrow>
            r \<in> set df \<and> pf_le (dy_min c) (dividend_yield r) \<and> pf_le (p_vp r) (pvp_max c) \<and>
            pf_le (vacancia_media r) (vacancia_max c) \<and> pf_le (liquidez_min c) (liquidez r)))
   \<and> (filter (mask c) df = [] \<longrightarrow> df_filtrado df c [])
   \<and> pf_le (Fin q) (Fin q)"
proof -
  have 1: "\<exists>res. df_filtrado df c res"
    by (rule exI, rule df_filtrado_exists)
  have 2: "\<forall>res r. df_filtrado df c res \<longrightarrow>
         (r \<in> set res \<longleftrightarrow>
            r \<in> set df \<and> pf_le (dy_min c) (dividend_yield r) \<and> pf_le (p_vp r) (pvp_max c) \<and>
            pf_le (vacancia_media r) (vacancia_max c) \<and> pf_le (liquidez_min c) (liquidez r))"
    using df_filtrado_set [of df c] by (auto simp: mask_def)
  have 3: "filter (mask c) df = [] \<longrightarrow> df_filtrado df c []"
    by (simp add: df_filtrado_def sort_values_result_def)
  show ?thesis using 1 2 3 by simp
qed

theorem filter_membership_witness:
  "df_filtrado [fund_A, fund_B, fund_C] criteria_e2e [fund_B, fund_A]
   \<and> pf_le (dy_min criteria_e2e) (dividend_yield fund_A)
   \<and> \<not> pf_le (dy_min criteria_e2e) (dividend_yield fund_C)
   \<and> df_filtrado [fund_A, fund_B, fund_C] criteria_at_A [fund_A]
   \<and> dy_min criteria_at_A = dividend_yield fund_A \<and> pvp_max criteria_at_A = p_vp fund_A
   \<and> vacancia_max criteria_at_A = vacancia_media fund_A \<and> liquidez_min criteria_at_A = liquidez fund_A"
proof -
  note iff = filter_membership [of "[fund_A, fund_B, fund_C]" criteria_e2e 0,
      THEN conjunct2, THEN conjunct1, rule_format, OF df_filtrado_e2e]
  have m: "fund_A \<in> set [fund_B, fund_A]"
    by simp
  have n: "fund_C \<notin> set [fund_B, fund_A]"
    by (simp add: example_funds mk_fund_def)
  have 1: "pf_le (dy_min criteria_e2e) (dividend_yield fund_A)"
    using iff [of fund_A] m by simp
  have others: "fund_C \<in> set [fund_A, fund_B, fund_C]"
    "pf_le (p_vp fund_C) (pvp_max criteria_e2e)"
    "pf_le (vacancia_media fund_C) (vacancia_max criteria_e2e)"
    "pf_le (liquidez_min criteria_e2e) (liquidez fund_C)"
    by (simp_all add: criteria_e2e_def example_funds mk_fund_def)
  have 2: "\<not> pf_le (dy_min criteria_e2e) (dividend_yield fund_C)"
    using iff [of fund_C] n others by simp
  have 3: "dy_min criteria_at_A = dividend_yield fund_A \<and> pvp_max criteria_at_A = p_vp fund_A
   \<and> vacancia_max criteria_at_A = vacancia_media fund_A \<and> liquidez_min criteria_at_A = liquidez fund_A"
    by (simp add: criteria_at_A_def example_funds mk_fund_def)
  show ?thesis
    using 1 2 3 df_filtrado_e2e df_filtrado_at_A by simp
qed





section \<open>Facts about the default criteria\<close>

lemma pf_min_props:
  assumes "a \<noteq> NaN" and "b \<noteq> NaN"
  shows "pf_min a b \<noteq> NaN" and "pf_le (pf_min a b) a" and "pf_le (pf_min a b) b"
  using assms pf_le_total [of a b] pf_le_refl [of a] pf_le_refl [of b]
  by (auto simp: pf_min_def)

lemma pf_max_props:
  assumes "a \<noteq> NaN" and "b \<noteq> NaN"
  shows "pf_max a b \<noteq> NaN" and "pf_le a (pf_max a b)" and "pf_le b (pf_max a b)"
  using assms pf_le_total [of a b] pf_le_refl [of a] pf_le_refl [of b]
  by (auto simp: pf_max_def)

lemma foldl_pf_min_le:
  "v \<noteq> NaN \<Longrightarrow> NaN \<notin> set vs \<Longrightarrow>
     pf_le (foldl pf_min v vs) v \<and> (\<forall>x \<in> set vs. pf_le (foldl pf_min v vs) x)"
proof (induction vs arbitrary: v)
  case Nil
  then show ?case by (simp add: pf_le_refl)
next
  case (Cons a vs)
  from Cons.prems have a: "a \<noteq> NaN" and vs: "NaN \<notin> set vs" by auto
  note m = pf_min_props [OF Cons.prems(1) a]
  from Cons.IH [OF m(1) vs]
  have 1: "pf_le (foldl pf_min (pf_min v a) vs) (pf_min v a)"
    and 2: "\<forall>x \<in> set vs. pf_le (foldl pf_min (pf_min v a) vs) x" by simp_all
  from pf_le_trans [OF 1 m(2)] pf_le_trans [OF 1 m(3)] 2 show ?case by simp
qed

lemma foldl_pf_max_ge:
  "v \<noteq> NaN \<Longrightarrow> NaN \<notin> set vs \<Longrightarrow>
     pf_le v (foldl pf_max v vs) \<and> (\<forall>x \<in> set vs. pf_le x (foldl pf_max v vs))"
proof (induction vs arbitrary: v)
  case Nil
  then show ?case by (simp add: pf_le_refl)
next
  case (Cons a vs)
  from Cons.prems have a: "a \<noteq> NaN" and vs: "NaN \<notin> set vs" by auto
  note m = pf_max_props [OF Cons.prems(1) a]
  from Cons.IH [OF m(1) vs]
  have 1: "pf_le (pf_max v a) (foldl pf_max (pf_max v a) vs)"
    and 2: "\<forall>x \<in> set vs. pf_le x (foldl pf_max (pf_max v a) vs)" by simp_all
  from pf_le_trans [OF m(2) 1] pf_le_trans [OF m(3) 1] 2 show ?case by simp
qed

lemma filter_not_NaN: "NaN \<notin> set xs \<Longrightarrow> filter (\<lambda>x. x \<noteq> NaN) xs = xs"
  by (induction xs) auto

lemma series_min_le:
  assumes "NaN \<notin> set xs" and "x \<in> set xs"
  shows "pf_le (series_min xs) x"
proof (cases xs)
  case Nil
  with assms show ?thesis by simp
next
  case (Cons v vs)
  with assms have "v \<noteq> NaN" and "NaN \<notin> set vs" by auto
  note le = foldl_pf_min_le [OF this]
  have f: "filter (\<lambda>x. x \<noteq> NaN) (v # vs) = v # vs"
    using filter_not_NaN [OF assms(1)] unfolding Cons .
  have "series_min xs = foldl pf_min v vs"
    unfolding series_min_def Cons f by simp
  with le assms(2) Cons show ?thesis by auto
qed

lemma series_max_ge:
  assumes "NaN \<notin> set xs" and "x \<in> set xs"
  shows "pf_le x (series_max xs)"
proof (cases xs)
  case Nil
  with assms show ?thesis by simp
next
  case (Cons v vs)
  with assms have "v \<noteq> NaN" and "NaN \<notin> set vs" by auto
  note ge = foldl_pf_max_ge [OF this]
  have f: "filter (\<lambda>x. x \<noteq> NaN) (v # vs) = v # vs"
    using filter_not_NaN [OF assms(1)] unfolding Cons .
  have "series_max xs = foldl pf_max v vs"
    unfolding series_max_def Cons f by simp
  with ge assms(2) Cons show ?thesis by auto
qed

lemma notin_set_map: "(\<And>x. x \<in> set xs \<Longrightarrow> f x \<noteq> v) \<Longrightarrow> v \<notin> set (map f xs)"
  by auto

lemma mask_default_criteria:
  assumes all: "list_all critical_present df" and r: "r \<in> set df"
  shows "mask (default_criteria df) r"
proof -
  have cp: "\<And>x. x \<in> set df \<Longrightarrow> critical_present x"
    using all by (simp add: list_all_iff)
  have "NaN \<notin> set (map dividend_yield df)" "NaN \<notin> set (map p_vp df)"
    "NaN \<notin> set (map vacancia_media df)" "NaN \<notin> set (map liquidez df)"
    by (rule notin_set_map, drule cp, simp add: critical_present_def)+
  moreover have "dividend_yield r \<in> set (map dividend_yield df)" "p_vp r \<in> set (map p_vp df)"
    "vacancia_media r \<in> set (map vacancia_media df)" "liquidez r \<in> set (map liquidez df)"
    using r by simp_all
  ultimately show ?thesis
    by (simp add: mask_def default_criteria_def series_min_le series_max_ge)
qed

lemma filter_default_criteria:
  "list_all critical_present df \<Longrightarrow> filter (mask (default_criteria df)) df = df"
  using mask_default_criteria [of df] by (simp add: filter_id_conv)

lemma buscar_critical: "list_all critical_present (fst (buscar_dados_fundamentus to_num resp))"
  using buscar_rows [of to_num resp] by (auto simp: list_all_iff)

lemma default_criteria_ABC:
  "default_criteria [fund_A, fund_B, fund_C] =
     \<lparr>dy_min = Fin 6, pvp_max = Fin (12 / 10), vacancia_max = Fin 5, liquidez_min = Fin 50000\<rparr>"
  by (simp add: default_criteria_def series_min_def series_max_def pf_min_def pf_max_def
      example_funds mk_fund_def)

lemma df_filtrado_default_ABC:
  "df_filtrado [fund_A, fund_B, fund_C] (default_criteria [fund_A, fund_B, fund_C])
     [fund_B, fund_A, fund_C]"
  unfolding default_criteria_ABC
  by (simp add: df_filtrado_def sort_values_result_def desc_nan_last_def mask_def
      example_funds mk_fund_def)

text \<open>
  Claim C10. On a normalized dataset (the four critical values of every record are not
  null, as they are in every frame the cleaning returns), the filter with the values the
  sliders start with (the least yield, the greatest P/VP, the greatest vacancy and the
  least liquidity of the dataset) returns every record of the dataset, each as often as
  it occurs, reordered by descending yield.
\<close>

theorem default_criteria_keep_all:
  assumes "list_all critical_present df"
    and "df_filtrado df (default_criteria df) res"
  shows "mset res = mset df \<and> set res = set df
         \<and> sorted_wrt (\<lambda>a b. pf_le (dividend_yield b) (dividend_yield a)) res
         \<and> list_all critical_present (fst (buscar_dados_fundamentus to_num resp))"
proof (intro conjI)
  show m: "mset res = mset df"
    using assms(2) filter_default_criteria [OF assms(1)]
    by (simp add: df_filtrado_def sort_values_result_def)
  show "set res = set df"
    using m by (rule mset_eq_setD)
  show "sorted_wrt (\<lambda>a b. pf_le (dividend_yield b) (dividend_yield a)) res"
    by (rule df_filtrado_sorted [OF assms(2)])
  show "list_all critical_present (fst (buscar_dados_fundamentus to_num resp))"
    by (rule buscar_critical)
qed

theorem default_criteria_keep_all_witness:
  "fst (buscar_dados_fundamentus (\<lambda>s. NaN) (page_of [row_A, row_B, row_C])) = [fund_A, fund_B, fund_C]
   \<and> list_all critical_present [fund_A, fund_B, fund_C]
   \<and> df_filtrado [fund_A, fund_B, fund_C] (default_criteria [fund_A, fund_B, fund_C])
        [fund_B, fund_A, fund_C]
   \<and> mset [fund_B, fund_A, fund_C] = mset [fund_A, fund_B, fund_C]
   \<and> set [fund_B, fund_A, fund_C] = set [fund_A, fund_B, fund_C]"
proof -
  have b: "fst (buscar_dados_fundamentus (\<lambda>s. NaN) (page_of [row_A, row_B, row_C])) =
             [fund_A, fund_B, fund_C]"
    by (simp add: buscar_dados_fundamentus_def try_body_ABC)
  have c: "list_all critical_present [fund_A, fund_B, fund_C]"
    using buscar_critical [of "\<lambda>s. NaN" "page_of [row_A, row_B, row_C]"] unfolding b .
  note t = default_criteria_keep_all [OF c df_filtrado_default_ABC]
  show ?thesis
    by (intro conjI b c df_filtrado_default_ABC t [THEN conjunct1]
        t [THEN conjunct2, THEN conjunct1])
qed


section \<open>Facts about the aggregation\<close>



lemma segment_key_agg_group: "segment_key (agg_group df k) = k"
  by (simp add: agg_group_def Let_def)

lemma keys_groupby_agg: "map segment_key (groupby_agg df) = group_keys df"
  by (simp add: groupby_agg_def o_def segment_key_agg_group)

lemma analise_segmento_mset: "analise_segmento df res \<Longrightarrow> mset res = mset (groupby_agg df)"
  by (simp add: analise_segmento_def sort_values_result_def)

lemma analise_segmento_keys:
  assumes "analise_segmento df res"
  shows "mset (map segment_key res) = mset (group_keys df)"
proof -
  have "mset (map segment_key res) = mset (map segment_key (groupby_agg df))"
    using analise_segmento_mset [OF assms] by (metis mset_map)
  then show ?thesis by (simp only: keys_groupby_agg)
qed













lemmas agg_eval =
  groupby_agg_def group_keys_def isna_def agg_group_def series_count_def series_mean_def
  example_funds mk_fund_def summary_A_def summary_C_def summary_AB_def




lemma groupby_agg_AC: "groupby_agg [fund_A, fund_C] = [summary_C, summary_A]"
  by (simp add: agg_eval)

lemma groupby_agg_BAC: "groupby_agg [fund_B, fund_A, fund_C] = [summary_C, summary_AB]"
  by (simp add: agg_eval)


lemma analise_segmento_AC: "analise_segmento [fund_A, fund_C] [summary_C, summary_A]"
  by (simp add: analise_segmento_def groupby_agg_AC sort_values_result_def
      summary_A_def summary_C_def)

lemma analise_segmento_BAC: "analise_segmento [fund_B, fund_A, fund_C] [summary_AB, summary_C]"
  by (simp add: analise_segmento_def groupby_agg_BAC sort_values_result_def
      summary_AB_def summary_C_def)




text \<open>
  Claim C6 says that summaries are ordered by count descending and that summaries of equal
  count come in the order in which their segments first appear in the dataset. The code
  does nothing for the second half: \<^verbatim>\<open>groupby\<close> forms the groups in ascending order of the
  segment, and the sort by count that follows is not a stable one. With fund A (Shopping)
  before fund C (Logistics), both segments have count 1, Shopping appears first, and the
  order Logistics, Shopping (the order of the groups) is a result of the call.
\<close>

theorem first_appearance_counterexample:
  "groupby_agg [fund_A, fund_C] = [summary_C, summary_A]
   \<and> analise_segmento [fund_A, fund_C] [summary_C, summary_A]
   \<and> FIIs_Contagem summary_C = FIIs_Contagem summary_A
   \<and> first_appearance [fund_A, fund_C] (segment_key summary_A)
       < first_appearance [fund_A, fund_C] (segment_key summary_C)
   \<and> \<not> ties_by_first_appearance [fund_A, fund_C] [summary_C, summary_A]"
proof -
  have 1: "FIIs_Contagem summary_C = FIIs_Contagem summary_A"
    by (simp add: summary_A_def summary_C_def)
  have 2: "first_appearance [fund_A, fund_C] (segment_key summary_A)
       < first_appearance [fund_A, fund_C] (segment_key summary_C)"
    by (simp add: first_appearance_def summary_A_def summary_C_def example_funds mk_fund_def)
  have 3: "\<not> ties_by_first_appearance [fund_A, fund_C] [summary_C, summary_A]"
    using 1 2 by (simp add: ties_by_first_appearance_def)
  show ?thesis
    by (intro conjI groupby_agg_AC analise_segmento_AC 1 2 3)
qed

text \<open>
  Claim C6, amended. The summaries are ordered by count descending; the order among
  summaries of equal count is open (it need not be the order of first appearance), and
  nothing else is: the sequence of counts is the descending sort of the group sizes, and
  the segments are those of the groups.
\<close>

theorem aggregate_sorted_by_count:
  assumes "analise_segmento df res"
  shows "sorted_wrt (\<lambda>a b. FIIs_Contagem b \<le> FIIs_Contagem a) res
         \<and> map FIIs_Contagem res = rev (sort (map FIIs_Contagem (groupby_agg df)))
         \<and> mset (map segment_key res) = mset (group_keys df)"
proof (intro conjI)
  show srt: "sorted_wrt (\<lambda>a b. FIIs_Contagem b \<le> FIIs_Contagem a) res"
    using assms by (simp add: analise_segmento_def sort_values_result_def)
  have "sorted (rev (map FIIs_Contagem res))"
    using srt by (simp add: sorted_wrt_rev sorted_wrt_map)
  moreover have "mset (rev (map FIIs_Contagem res)) = mset (map FIIs_Contagem (groupby_agg df))"
    using analise_segmento_mset [OF assms] by (metis mset_map mset_rev)
  ultimately have "sort (map FIIs_Contagem (groupby_agg df)) = rev (map FIIs_Contagem res)"
    by (rule properties_for_sort [rotated])
  then show "map FIIs_Contagem res = rev (sort (map FIIs_Contagem (groupby_agg df)))"
    by simp
  show "mset (map segment_key res) = mset (group_keys df)"
    by (rule analise_segmento_keys [OF assms])
qed

theorem aggregate_sorted_by_count_witness:
  "analise_segmento [fund_B, fund_A, fund_C] [summary_AB, summary_C]
   \<and> sorted_wrt (\<lambda>a b. FIIs_Contagem b \<le> FIIs_Contagem a) [summary_AB, summary_C]
   \<and> map FIIs_Contagem [summary_AB, summary_C] = [2, 1]"
proof -
  note t = aggregate_sorted_by_count [OF analise_segmento_BAC]
  have "map FIIs_Contagem [summary_AB, summary_C] = [2, 1]"
    using t [THEN conjunct2, THEN conjunct1]
    by (simp add: groupby_agg_BAC summary_AB_def summary_C_def)
  then show ?thesis
    by (intro conjI analise_segmento_BAC t [THEN conjunct1])
qed


end
